theory Spec2Isabelle
  imports Complex_Main "HOL-Library.Sublist"
begin

section \<open>The rendering surface\<close>

text \<open>
  The layout routines of the repository draw on a PDFKit document. The model keeps the part
  of that document the routines read or write: the cursor \<open>doc.y\<close>, the page geometry
  (\<open>doc.page.width\<close>, \<open>doc.page.height\<close>, \<open>doc.page.margins\<close>), the current font and font
  size, the number of the current page, the list of registered \<open>pageAdded\<close> listeners, and
  the canvas: every stroked rectangle, stroked line and text, in drawing order, each with
  the page it landed on.

  JavaScript numbers are modelled as exact rationals: rounding of IEEE doubles is outside
  the model. Colours, line caps and document metadata are not modelled. A text is one draw
  operation on the current page: PDFKit's continuation of a text that runs past the bottom
  margin onto a page of its own is not modelled, and neither is the cursor movement PDFKit
  performs after a text, because none of the routines below reads \<open>doc.y\<close> after drawing a
  text.
\<close>

datatype align = AlignLeft | AlignRight | AlignCenter

datatype op =
    Rect rat rat rat rat
  | Line rat rat rat rat
  | Text "string \<times> rat" string rat rat rat align

text \<open>
  \<open>Rect x y w h\<close> is \<open>doc.rect(x, y, w, h).stroke()\<close>; \<open>Line x1 y1 x2 y2\<close> is
  \<open>doc.moveTo(x1, y1).lineTo(x2, y2).stroke()\<close>; \<open>Text (font, size) s x y width align\<close> is
  \<open>doc.text(s, x, y, {width, align})\<close> under the font and size in force.
\<close>

datatype listener = ReportPageAdded

record doc =
  doc_y :: rat
  page_width :: rat
  page_height :: rat
  margin_left :: rat
  margin_right :: rat
  margin_top :: rat
  margin_bottom :: rat
  font_name :: string
  font_size :: rat
  pages :: nat
  listeners :: "listener list"
  canvas :: "(nat \<times> op) list"

text \<open>The constants \<open>leftMargin\<close> and \<open>rightMargin\<close> of the constants module.\<close>

definition leftMargin :: rat where
  "leftMargin = 20"

definition rightMargin :: rat where
  "rightMargin = 20"

definition draw :: "op list \<Rightarrow> doc \<Rightarrow> doc" where
  "draw os d = d\<lparr>canvas := canvas d @ map (Pair (pages d)) os\<rparr>"

definition font :: "string \<Rightarrow> doc \<Rightarrow> doc" where
  "font name d = d\<lparr>font_name := name\<rparr>"

definition fontSize :: "rat \<Rightarrow> doc \<Rightarrow> doc" where
  "fontSize n d = d\<lparr>font_size := n\<rparr>"

definition text_at :: "string \<Rightarrow> rat \<Rightarrow> rat \<Rightarrow> rat \<Rightarrow> align \<Rightarrow> doc \<Rightarrow> doc" where
  "text_at s x y w a d = draw [Text (font_name d, font_size d) s x y w a] d"

text \<open>
  \<open>doc.heightOfString(s, {width})\<close> is the surface's text measurement. It depends on the
  font and size in force, on the string and on the width; it is a parameter \<open>M\<close> of
  every routine that measures.
\<close>

type_synonym metrics = "string \<times> rat \<Rightarrow> string \<Rightarrow> rat \<Rightarrow> rat"

definition heightOfString :: "metrics \<Rightarrow> doc \<Rightarrow> string \<Rightarrow> rat \<Rightarrow> rat" where
  "heightOfString M d s w = M (font_name d, font_size d) s w"

text \<open>\<open>insideWidth\<close>, \<open>drawLine\<close>, \<open>drawVerticalLine\<close> and \<open>drawPageBorder\<close> of the layout utilities.\<close>

definition insideWidth :: "doc \<Rightarrow> rat" where
  "insideWidth d = page_width d - (leftMargin + rightMargin + 10)"

definition drawLine :: "rat \<Rightarrow> doc \<Rightarrow> doc" where
  "drawLine y d = draw [Line leftMargin y (page_width d - rightMargin) y] d"

definition drawVerticalLine :: "rat \<Rightarrow> rat \<Rightarrow> rat \<Rightarrow> doc \<Rightarrow> doc" where
  "drawVerticalLine height x y d = draw [Line x y x (y + height)] d"

definition drawPageBorder :: "doc \<Rightarrow> doc" where
  "drawPageBorder d =
     draw [Rect (margin_left d) (margin_top d)
             (page_width d - margin_left d - margin_right d)
             (page_height d - margin_top d - margin_bottom d)] d"

text \<open>
  The listener \<open>exportReportToPDF\<close> registers with \<open>doc.on("pageAdded", ...)\<close>: it draws the
  page border and puts the cursor on the top margin.
\<close>

fun run_listener :: "listener \<Rightarrow> doc \<Rightarrow> doc" where
  "run_listener ReportPageAdded d = (drawPageBorder d)\<lparr>doc_y := margin_top d\<rparr>"

text \<open>
  \<open>doc.addPage()\<close> of PDFKit: a new page with the document's geometry becomes the current
  page, the cursor goes to the top margin, and the \<open>pageAdded\<close> listeners run in the
  order of their registration.
\<close>

definition addPage :: "doc \<Rightarrow> doc" where
  "addPage d = fold run_listener (listeners d) (d\<lparr>pages := Suc (pages d), doc_y := margin_top d\<rparr>)"

section \<open>The wide-left table\<close>

text \<open>
  \<open>drawWideLeftTable(doc, rows, leftHeader, rightHeader, y, options)\<close>. A row is the pair of
  its label and of \<open>String(value)\<close>. The argument \<open>y\<close> is optional (\<open>None\<close> is \<open>undefined\<close>):
  \<open>startY\<close> is the first line of the body. \<open>options\<close> is never read by the function and is
  left out. The source computes \<open>bottom\<close> once, before the loop; the page geometry never
  changes, and the model reads it where it is used.
\<close>

type_synonym row = "string \<times> string"


definition tableX :: rat where
  "tableX = leftMargin"

definition tableWidth :: "doc \<Rightarrow> rat" where
  "tableWidth d = page_width d - leftMargin - rightMargin"

definition col1Width :: "doc \<Rightarrow> rat" where
  "col1Width d = of_int \<lfloor>tableWidth d * (3 / 4)\<rfloor>"

definition col2Width :: "doc \<Rightarrow> rat" where
  "col2Width d = tableWidth d - col1Width d"

definition rowHeight :: rat where
  "rowHeight = 18"

definition headerHeight :: rat where
  "headerHeight = 20"

definition bottom_of :: "doc \<Rightarrow> rat" where
  "bottom_of d = page_height d - margin_bottom d"

definition drawHeader :: "string \<Rightarrow> string \<Rightarrow> rat \<Rightarrow> doc \<Rightarrow> doc" where
  "drawHeader leftHeader rightHeader yPos d =
     (let d1 = fontSize 10 (font ''Lato-Bold'' d);
          d2 = draw [Rect tableX yPos (col1Width d1) headerHeight] d1;
          d3 = draw [Rect (tableX + col1Width d2) yPos (col2Width d2) headerHeight] d2;
          d4 = text_at leftHeader (tableX + 8) (yPos + 5) (col1Width d3 - 16) AlignLeft d3
      in text_at rightHeader (tableX + col1Width d4 + 8) (yPos + 5) (col2Width d4 - 16) AlignRight d4)"





text \<open>An A4 report document as \<open>exportReportToPDF\<close> opens it, with an empty canvas.\<close>

definition reportDoc :: "rat \<Rightarrow> doc" where
  "reportDoc y0 =
     \<lparr>doc_y = y0, page_width = 59528 / 100, page_height = 84189 / 100,
      margin_left = leftMargin, margin_right = rightMargin, margin_top = leftMargin,
      margin_bottom = 40, font_name = ''Helvetica'', font_size = 12, pages = 0,
      listeners = [ReportPageAdded], canvas = []\<rparr>"

section \<open>The room check\<close>

text \<open>
  \<open>ensureSpace(doc, neededHeight = 80)\<close> of the business report generator. The default
  of the second argument is \<open>ensureSpaceDefault\<close>.
\<close>

definition ensureSpace :: "doc \<Rightarrow> rat \<Rightarrow> doc" where
  "ensureSpace d neededHeight =
     (let bottom = page_height d - margin_bottom d in
      if doc_y d + neededHeight > bottom then
        (if doc_y d > margin_top d + 1 then addPage d else d)
      else d)"

definition ensureSpaceDefault :: "doc \<Rightarrow> doc" where
  "ensureSpaceDefault d = ensureSpace d 80"

section \<open>Information lines\<close>

text \<open>
  \<open>generateInformationLine\<close> and \<open>generateInformationLineWithFixedHeight\<close> of the receipt and
  tax invoice generators. The first statement of \<open>generateInformationLine\<close> after the widths,
  the \<open>reduce\<close> over the texts followed by \<open>Math.max(maxHeight, minCellHeight)\<close>, is
  \<open>rowMaxHeight\<close>.
\<close>

definition minCellHeight :: rat where
  "minCellHeight = 14"

definition rowMaxHeight :: "metrics \<Rightarrow> doc \<Rightarrow> string list \<Rightarrow> rat \<Rightarrow> rat" where
  "rowMaxHeight M d texts textWidth =
     max (foldl (\<lambda>mx current.
                 let height = heightOfString M d current textWidth
                 in if height > mx then height else mx) 0 texts)
         minCellHeight"

text \<open>
  The loop that draws the text of each column; \<open>i\<close> is the loop index and the list holds
  \<open>text[i], text[i + 1], ...\<close>. The height is measured before the font of the row is set,
  as in the source.
\<close>

fun drawColumns ::
    "metrics \<Rightarrow> string \<Rightarrow> rat \<Rightarrow> rat \<Rightarrow> rat \<Rightarrow> nat \<Rightarrow> string list \<Rightarrow> doc \<Rightarrow> doc" where
  "drawColumns M fnt width cellHeight valueFromTop i [] d = d"
| "drawColumns M fnt width cellHeight valueFromTop i (t # ts) d =
     (let textWidth = width - 5;
          x = (if i = 0 then leftMargin else leftMargin + width * of_nat i + 5 / 2);
          height = heightOfString M d t textWidth;
          y = (if height \<noteq> cellHeight then valueFromTop + ((cellHeight - height) / 2 - 1)
               else valueFromTop);
          d1 = text_at t x y textWidth AlignCenter (fontSize 9 (font fnt d))
      in drawColumns M fnt width cellHeight valueFromTop (Suc i) ts d1)"

text \<open>The loop that draws the vertical lines between the columns; index 0 is skipped.\<close>

fun drawSeparators :: "rat \<Rightarrow> rat \<Rightarrow> rat \<Rightarrow> nat \<Rightarrow> string list \<Rightarrow> doc \<Rightarrow> doc" where
  "drawSeparators width beginningPoint endingPoint i [] d = d"
| "drawSeparators width beginningPoint endingPoint i (t # ts) d =
     (if i = 0 then drawSeparators width beginningPoint endingPoint (Suc i) ts d
      else drawSeparators width beginningPoint endingPoint (Suc i) ts
             (drawVerticalLine (endingPoint - beginningPoint) (leftMargin + width * of_nat i)
                beginningPoint d))"

definition generateInformationLine ::
    "metrics \<Rightarrow> doc \<Rightarrow> string list \<Rightarrow> rat \<Rightarrow> rat \<Rightarrow> string \<Rightarrow> (rat \<times> rat) \<times> doc" where
  "generateInformationLine M d texts valueFromTop beginningPoint fnt =
     (let width = insideWidth d / 6;
          textWidth = width - 5;
          maxHeight = rowMaxHeight M d texts textWidth;
          d1 = drawColumns M fnt width maxHeight valueFromTop 0 texts d;
          endingPoint = valueFromTop + maxHeight + 5;
          d2 = drawSeparators width beginningPoint endingPoint 0 texts d1;
          d3 = drawLine endingPoint d2
      in ((endingPoint + 5, endingPoint), d3))"

text \<open>The fixed-height row of the receipt generator: six columns.\<close>

definition generateInformationLineWithFixedHeight ::
    "metrics \<Rightarrow> doc \<Rightarrow> string list \<Rightarrow> rat \<Rightarrow> rat \<Rightarrow> string \<Rightarrow> rat \<Rightarrow> (rat \<times> rat) \<times> doc" where
  "generateInformationLineWithFixedHeight M d texts valueFromTop beginningPoint fnt fixedHeight =
     (let width = insideWidth d / 6;
          d1 = drawColumns M fnt width fixedHeight valueFromTop 0 texts d;
          endingPoint = valueFromTop + fixedHeight + 5;
          d2 = drawSeparators width beginningPoint endingPoint 0 texts d1;
          d3 = drawLine endingPoint d2
      in ((endingPoint + 5, endingPoint), d3))"

text \<open>
  The fixed-height row of the tax invoice generator: the number of columns is an argument
  (6 by default; the callers pass 6 or 2).
\<close>

definition generateInformationLineWithFixedHeightCols ::
    "metrics \<Rightarrow> doc \<Rightarrow> string list \<Rightarrow> rat \<Rightarrow> rat \<Rightarrow> string \<Rightarrow> rat \<Rightarrow> nat
      \<Rightarrow> (rat \<times> rat) \<times> doc" where
  "generateInformationLineWithFixedHeightCols M d texts valueFromTop beginningPoint fnt fixedHeight
       columns =
     (let width = insideWidth d / of_nat columns;
          d1 = drawColumns M fnt width fixedHeight valueFromTop 0 texts d;
          endingPoint = valueFromTop + fixedHeight + 5;
          d2 = drawSeparators width beginningPoint endingPoint 0 texts d1;
          d3 = drawLine endingPoint d2
      in ((endingPoint + 5, endingPoint), d3))"

text \<open>
  Rows chained through the returned pair, as the table generators do with
  \<open>[valueFromTop, beginningPoint] = generateInformationLine(...)\<close>: the list collects, for each
  row, the \<open>valueFromTop\<close> it was given (its top) and the ending point it returned.
\<close>

fun informationLines ::
    "metrics \<Rightarrow> string \<Rightarrow> string list list \<Rightarrow> rat \<Rightarrow> rat \<Rightarrow> doc \<Rightarrow> (rat \<times> rat) list" where
  "informationLines M fnt [] valueFromTop beginningPoint d = []"
| "informationLines M fnt (texts # rest) valueFromTop beginningPoint d =
     (let r = generateInformationLine M d texts valueFromTop beginningPoint fnt
      in (valueFromTop, snd (fst r)) #
         informationLines M fnt rest (fst (fst r)) (snd (fst r)) (snd r))"

text \<open>
  \<open>generateTaxInformationTable\<close> of the receipt generator, with the tax constants of the
  constants module.
\<close>

definition labelTexts :: "string list" where
  "labelTexts = [''TIN No'', ''VRN'', ''TAX OFFICE'', ''Z BRN No'', ''Z VRN'', ''VFD SERIAL'']"

definition valueTexts :: "string list" where
  "valueTexts = [''100 738 031'', ''100 168 38A'', ''LARGE TAXPAYER'', ''Z025350886'',
                 ''070 015 35S'', ''10TZ100438'']"

definition labelHeight :: "metrics \<Rightarrow> doc \<Rightarrow> rat" where
  "labelHeight M d =
     rowMaxHeight M (fontSize 9 (font ''Title'' d)) labelTexts (insideWidth d / 6 - 5)"

definition valueHeight :: "metrics \<Rightarrow> doc \<Rightarrow> rat" where
  "valueHeight M d =
     rowMaxHeight M (fontSize 9 (font ''Normal'' d)) valueTexts (insideWidth d / 6 - 5)"

definition generateTaxInformationTable :: "metrics \<Rightarrow> doc \<Rightarrow> rat \<Rightarrow> rat \<times> doc" where
  "generateTaxInformationTable M d y =
     (let d1 = drawLine y d;
          beginningPoint = y;
          valueFromTop = y + 8;
          uniformCellHeight = max (labelHeight M d1) (valueHeight M d1);
          d2 = fontSize 9 (font ''Normal'' d1);
          r1 = generateInformationLineWithFixedHeight M d2 labelTexts valueFromTop beginningPoint
                 ''Title'' uniformCellHeight;
          r2 = generateInformationLineWithFixedHeight M (snd r1) valueTexts (fst (fst r1))
                 (snd (fst r1)) ''Normal'' uniformCellHeight
      in (fst (fst r2), snd r2))"

text \<open>
  A sample text measurement for concrete runs: the empty string has no height, any other
  string is one line of 1.2 times the font size (10.8 units at size 9).
\<close>

definition oneLine :: metrics where
  "oneLine st s w = (if s = [] then 0 else snd st * (6 / 5))"

section \<open>Writing the document out\<close>

text \<open>
  The generators hand the bytes of the finished document to Node's file system. The sink
  is the environment: \<open>Unlimited\<close> accepts every byte, \<open>FailsAfter n\<close> accepts \<open>n\<close> more bytes and
  then fails the write in progress, \<open>OpenFails\<close> fails before the file is created. Opening a
  file for writing creates or truncates it; the bytes accepted before a failure stay in
  the file.
\<close>

datatype sink = Unlimited | FailsAfter nat | OpenFails

type_synonym files = "string \<rightharpoonup> string"

fun writeChunks :: "nat option \<Rightarrow> string list \<Rightarrow> string \<Rightarrow> string \<times> bool" where
  "writeChunks budget [] written = (written, True)"
| "writeChunks budget (c # cs) written =
     (case budget of
        None \<Rightarrow> writeChunks None cs (written @ c)
      | Some n \<Rightarrow>
          if length c \<le> n then writeChunks (Some (n - length c)) cs (written @ c)
          else (written @ take n c, False))"

definition writeTo :: "sink \<Rightarrow> files \<Rightarrow> string \<Rightarrow> string list \<Rightarrow> files \<times> bool" where
  "writeTo snk fs path chunks =
     (case snk of
        OpenFails \<Rightarrow> (fs, False)
      | Unlimited \<Rightarrow> (let r = writeChunks None chunks [] in (fs(path \<mapsto> fst r), snd r))
      | FailsAfter n \<Rightarrow> (let r = writeChunks (Some n) chunks [] in (fs(path \<mapsto> fst r), snd r)))"

text \<open>\<open>fs.writeFileSync(path, data)\<close>: one open and one buffer; \<open>False\<close> is the exception.\<close>

definition writeFileSync :: "sink \<Rightarrow> files \<Rightarrow> string \<Rightarrow> string \<Rightarrow> files \<times> bool" where
  "writeFileSync snk fs path pdfData = writeTo snk fs path [pdfData]"

datatype settled = Resolved | Rejected

datatype doc_event = DocEnd | DocError

text \<open>
  The end of \<open>generateNewReceipt\<close> (and of \<open>generateNewTaxInvoice\<close>): the chunks the document
  emitted were collected in memory; on the document's \<open>end\<close> event they are concatenated and
  written with \<open>writeFileSync\<close> inside a \<open>try\<close> whose \<open>catch\<close> rejects the promise; the
  document's \<open>error\<close> event rejects the promise.
\<close>

definition generateNewReceipt_write ::
    "sink \<Rightarrow> doc_event \<Rightarrow> files \<Rightarrow> string \<Rightarrow> string list \<Rightarrow> files \<times> settled" where
  "generateNewReceipt_write snk ev fs localPath chunks =
     (case ev of
        DocEnd \<Rightarrow>
          (let pdfData = concat chunks;
               r = writeFileSync snk fs localPath pdfData
           in if snd r then (fst r, Resolved) else (fst r, Rejected))
      | DocError \<Rightarrow> (fs, Rejected))"

text \<open>
  The output of \<open>exportReportToPDF\<close>: \<open>doc.pipe(fs.createWriteStream(filePath))\<close> sends each
  chunk to the file as the document emits it. The function registers no \<open>error\<close> listener
  and returns nothing: its result is \<open>None\<close>, whatever the sink did.
\<close>

definition exportReportToPDF_write ::
    "sink \<Rightarrow> files \<Rightarrow> string \<Rightarrow> string list \<Rightarrow> files \<times> settled option" where
  "exportReportToPDF_write snk fs filePath chunks = (fst (writeTo snk fs filePath chunks), None)"

section \<open>What the routines draw, as lists\<close>

text \<open>
  The definitions of this section are not in the source. They describe, as plain lists,
  what the routines above put on the canvas, and the facts below tie each of them to the
  routine it describes.

  \<open>listenerOps\<close> is what the \<open>pageAdded\<close> listeners draw on a new page; \<open>headerOps\<close> and
  \<open>rowOps\<close> are what \<open>drawHeader\<close> and the body of the row loop draw; \<open>loopOps\<close> and \<open>loopEnd\<close>
  are the canvas entries of the whole row loop and the position and page it ends on.
\<close>

definition borderOp :: "doc \<Rightarrow> op" where
  "borderOp d = Rect (margin_left d) (margin_top d)
             (page_width d - margin_left d - margin_right d)
             (page_height d - margin_top d - margin_bottom d)"

fun listenerOp :: "doc \<Rightarrow> listener \<Rightarrow> op" where
  "listenerOp d ReportPageAdded = borderOp d"

definition listenerOps :: "doc \<Rightarrow> op list" where
  "listenerOps d = map (listenerOp d) (listeners d)"




fun loopEnd :: "doc \<Rightarrow> row list \<Rightarrow> rat \<Rightarrow> nat \<Rightarrow> rat \<times> nat" where
  "loopEnd g [] cy p = (cy, p)"
| "loopEnd g (r # rs) cy p =
     (if cy + rowHeight + 10 > bottom_of g
      then loopEnd g rs (margin_top g + headerHeight + rowHeight) (Suc p)
      else loopEnd g rs (cy + rowHeight) p)"

text \<open>Two documents with the same page geometry and the same listeners.\<close>

definition same_geom :: "doc \<Rightarrow> doc \<Rightarrow> bool" where
  "same_geom g d \<longleftrightarrow>
     page_width d = page_width g \<and> page_height d = page_height g \<and>
     margin_left d = margin_left g \<and> margin_right d = margin_right g \<and>
     margin_top d = margin_top g \<and> margin_bottom d = margin_bottom g \<and>
     listeners d = listeners g"



text \<open>The same list computed from the geometry alone.\<close>

fun placements :: "doc \<Rightarrow> row list \<Rightarrow> rat \<Rightarrow> nat \<Rightarrow> (nat \<times> rat \<times> rat) list" where
  "placements g [] cy p = []"
| "placements g (r # rs) cy p =
     (if cy + rowHeight + 10 > bottom_of g
      then (Suc p, margin_top g + headerHeight, margin_top g + headerHeight + rowHeight) #
           placements g rs (margin_top g + headerHeight + rowHeight) (Suc p)
      else (p, cy, cy + rowHeight) # placements g rs (cy + rowHeight) p)"


definition on_page :: "nat \<Rightarrow> (nat \<times> op) list \<Rightarrow> op list" where
  "on_page p c = map snd (filter (\<lambda>e. fst e = p) c)"

text \<open>
  What the column loop and the separator loop of an information line draw: \<open>columnOps\<close>
  takes the font and size in force when the loop starts (the first cell is measured under
  them, every later cell under the row's font at size 9); \<open>separatorOps\<close> is one vertical
  line for each column index from 1 on.
\<close>

fun columnOps ::
    "metrics \<Rightarrow> string \<Rightarrow> rat \<Rightarrow> rat \<Rightarrow> rat \<Rightarrow> nat \<Rightarrow> string list \<Rightarrow> string \<times> rat \<Rightarrow> op list" where
  "columnOps M fnt width cellHeight valueFromTop i [] st = []"
| "columnOps M fnt width cellHeight valueFromTop i (t # ts) st =
     Text (fnt, 9) t
       (if i = 0 then leftMargin else leftMargin + width * of_nat i + 5 / 2)
       (if M st t (width - 5) \<noteq> cellHeight
        then valueFromTop + ((cellHeight - M st t (width - 5)) / 2 - 1) else valueFromTop)
       (width - 5) AlignCenter
     # columnOps M fnt width cellHeight valueFromTop (Suc i) ts (fnt, 9)"

definition separatorOps :: "rat \<Rightarrow> rat \<Rightarrow> rat \<Rightarrow> nat \<Rightarrow> op list" where
  "separatorOps width beginningPoint endingPoint n =
     map (\<lambda>k. Line (leftMargin + width * of_nat k) beginningPoint
                 (leftMargin + width * of_nat k) endingPoint) [1..<n]"

fun is_text :: "op \<Rightarrow> bool" where
  "is_text (Text st s x y w a) = True"
| "is_text (Rect x y w h) = False"
| "is_text (Line x1 y1 x2 y2) = False"

text \<open>
  A page too short for a single row of the wide-left table: 20 usable units between the
  margins.
\<close>

definition stripDoc :: doc where
  "stripDoc = (reportDoc 20)\<lparr>page_height := 80\<rparr>"

section \<open>Facts about the surface and the wide-left table\<close>

lemma draw_fields [simp]:
  "doc_y (draw os d) = doc_y d" "page_width (draw os d) = page_width d"
  "page_height (draw os d) = page_height d" "margin_left (draw os d) = margin_left d"
  "margin_right (draw os d) = margin_right d" "margin_top (draw os d) = margin_top d"
  "margin_bottom (draw os d) = margin_bottom d" "font_name (draw os d) = font_name d"
  "font_size (draw os d) = font_size d" "pages (draw os d) = pages d"
  "listeners (draw os d) = listeners d"
  "canvas (draw os d) = canvas d @ map (Pair (pages d)) os"
  by (simp_all add: draw_def)

lemma font_fields [simp]:
  "doc_y (font n d) = doc_y d" "page_width (font n d) = page_width d"
  "page_height (font n d) = page_height d" "margin_left (font n d) = margin_left d"
  "margin_right (font n d) = margin_right d" "margin_top (font n d) = margin_top d"
  "margin_bottom (font n d) = margin_bottom d" "font_name (font n d) = n"
  "font_size (font n d) = font_size d" "pages (font n d) = pages d"
  "listeners (font n d) = listeners d" "canvas (font n d) = canvas d"
  by (simp_all add: font_def)

lemma fontSize_fields [simp]:
  "doc_y (fontSize k d) = doc_y d" "page_width (fontSize k d) = page_width d"
  "page_height (fontSize k d) = page_height d" "margin_left (fontSize k d) = margin_left d"
  "margin_right (fontSize k d) = margin_right d" "margin_top (fontSize k d) = margin_top d"
  "margin_bottom (fontSize k d) = margin_bottom d" "font_name (fontSize k d) = font_name d"
  "font_size (fontSize k d) = k" "pages (fontSize k d) = pages d"
  "listeners (fontSize k d) = listeners d" "canvas (fontSize k d) = canvas d"
  by (simp_all add: fontSize_def)

lemma text_at_fields [simp]:
  "doc_y (text_at s x y w a d) = doc_y d" "page_width (text_at s x y w a d) = page_width d"
  "page_height (text_at s x y w a d) = page_height d"
  "margin_left (text_at s x y w a d) = margin_left d"
  "margin_right (text_at s x y w a d) = margin_right d"
  "margin_top (text_at s x y w a d) = margin_top d"
  "margin_bottom (text_at s x y w a d) = margin_bottom d"
  "font_name (text_at s x y w a d) = font_name d"
  "font_size (text_at s x y w a d) = font_size d" "pages (text_at s x y w a d) = pages d"
  "listeners (text_at s x y w a d) = listeners d"
  "canvas (text_at s x y w a d) = canvas d @ [(pages d, Text (font_name d, font_size d) s x y w a)]"
  by (simp_all add: text_at_def)

lemma run_listener_fields [simp]:
  "doc_y (run_listener l d) = margin_top d" "page_width (run_listener l d) = page_width d"
  "page_height (run_listener l d) = page_height d"
  "margin_left (run_listener l d) = margin_left d"
  "margin_right (run_listener l d) = margin_right d"
  "margin_top (run_listener l d) = margin_top d"
  "margin_bottom (run_listener l d) = margin_bottom d"
  "font_name (run_listener l d) = font_name d"
  "font_size (run_listener l d) = font_size d" "pages (run_listener l d) = pages d"
  "listeners (run_listener l d) = listeners d"
  "canvas (run_listener l d) = canvas d @ [(pages d, listenerOp d l)]"
  by (cases l; simp add: drawPageBorder_def borderOp_def)+

lemma fold_listeners_fields:
  "page_width (fold run_listener ls d) = page_width d"
  "page_height (fold run_listener ls d) = page_height d"
  "margin_left (fold run_listener ls d) = margin_left d"
  "margin_right (fold run_listener ls d) = margin_right d"
  "margin_top (fold run_listener ls d) = margin_top d"
  "margin_bottom (fold run_listener ls d) = margin_bottom d"
  "font_name (fold run_listener ls d) = font_name d"
  "font_size (fold run_listener ls d) = font_size d"
  "pages (fold run_listener ls d) = pages d"
  "listeners (fold run_listener ls d) = listeners d"
  by (induction ls arbitrary: d; simp)+

lemma listenerOp_cong:
  "page_width d = page_width g \<Longrightarrow> page_height d = page_height g \<Longrightarrow>
   margin_left d = margin_left g \<Longrightarrow> margin_right d = margin_right g \<Longrightarrow>
   margin_top d = margin_top g \<Longrightarrow> margin_bottom d = margin_bottom g \<Longrightarrow>
   listenerOp d l = listenerOp g l"
  by (cases l) (simp add: borderOp_def)

lemma fold_listeners_canvas:
  "canvas (fold run_listener ls d) = canvas d @ map (Pair (pages d)) (map (listenerOp d) ls)"
proof (induction ls arbitrary: d)
  case Nil
  show ?case by simp
next
  case (Cons l ls)
  have "map (listenerOp (run_listener l d)) ls = map (listenerOp d) ls"
    by (rule map_cong[OF refl], rule listenerOp_cong) simp_all
  with Cons show ?case by simp
qed

lemma fold_listeners_y:
  "doc_y (fold run_listener ls d) = (if ls = [] then doc_y d else margin_top d)"
proof (induction ls arbitrary: d)
  case Nil
  show ?case by simp
next
  case (Cons l ls)
  show ?case by (simp add: Cons fold_listeners_fields)
qed

lemma addPage_fields [simp]:
  "doc_y (addPage d) = margin_top d" "page_width (addPage d) = page_width d"
  "page_height (addPage d) = page_height d" "margin_left (addPage d) = margin_left d"
  "margin_right (addPage d) = margin_right d" "margin_top (addPage d) = margin_top d"
  "margin_bottom (addPage d) = margin_bottom d" "font_name (addPage d) = font_name d"
  "font_size (addPage d) = font_size d" "pages (addPage d) = Suc (pages d)"
  "listeners (addPage d) = listeners d"
  by (simp_all add: addPage_def fold_listeners_fields fold_listeners_y)

lemma addPage_canvas [simp]:
  "canvas (addPage d) = canvas d @ map (Pair (Suc (pages d))) (listenerOps d)"
proof -
  have "map (listenerOp (d\<lparr>pages := Suc (pages d), doc_y := margin_top d\<rparr>)) (listeners d)
        = map (listenerOp d) (listeners d)"
    by (rule map_cong[OF refl], rule listenerOp_cong) simp_all
  then show ?thesis
    by (simp add: addPage_def fold_listeners_canvas listenerOps_def)
qed



lemma drawHeader_fields [simp]:
  "doc_y (drawHeader lh rh yPos d) = doc_y d"
  "page_width (drawHeader lh rh yPos d) = page_width d"
  "page_height (drawHeader lh rh yPos d) = page_height d"
  "margin_left (drawHeader lh rh yPos d) = margin_left d"
  "margin_right (drawHeader lh rh yPos d) = margin_right d"
  "margin_top (drawHeader lh rh yPos d) = margin_top d"
  "margin_bottom (drawHeader lh rh yPos d) = margin_bottom d"
  "font_name (drawHeader lh rh yPos d) = ''Lato-Bold''"
  "font_size (drawHeader lh rh yPos d) = 10"
  "pages (drawHeader lh rh yPos d) = pages d"
  "listeners (drawHeader lh rh yPos d) = listeners d"
  by (simp_all add: drawHeader_def Let_def)











lemma length_placements [simp]: "length (placements g rs cy p) = length rs"
  by (induction rs arbitrary: cy p) simp_all



lemma placements_Nil_iff [simp]: "placements g rs cy p = [] \<longleftrightarrow> rs = []"
  by (cases rs) simp_all

lemma loopEnd_placements:
  "loopEnd g rs cy p =
     (if rs = [] then (cy, p)
      else (snd (snd (last (placements g rs cy p))), fst (last (placements g rs cy p))))"
proof (induction rs arbitrary: cy p)
  case Nil
  show ?case by simp
next
  case (Cons r rs)
  show ?case
  proof (cases "cy + rowHeight + 10 > bottom_of g")
    case True
    then show ?thesis
      by (simp only: loopEnd.simps placements.simps if_True Cons.IH last.simps
            placements_Nil_iff) simp
  next
    case False
    then show ?thesis
      by (simp only: loopEnd.simps placements.simps if_False Cons.IH last.simps
            placements_Nil_iff) simp
  qed
qed

lemma same_geom_refl [simp]: "same_geom d d"
  by (simp add: same_geom_def)


lemma on_page_append [simp]: "on_page p (a @ b) = on_page p a @ on_page p b"
  by (simp add: on_page_def)

lemma on_page_Pair [simp]: "on_page p (map (Pair q) os) = (if p = q then os else [])"
  by (induction os) (auto simp: on_page_def)




section \<open>Facts about rows, information lines and the sink\<close>










lemma drawColumns_run:
  "canvas (drawColumns M fnt width ch vft i ts d) =
     canvas d @ map (Pair (pages d)) (columnOps M fnt width ch vft i ts (font_name d, font_size d))
   \<and> pages (drawColumns M fnt width ch vft i ts d) = pages d
   \<and> page_width (drawColumns M fnt width ch vft i ts d) = page_width d
   \<and> font_name (drawColumns M fnt width ch vft i ts d) = (if ts = [] then font_name d else fnt)
   \<and> font_size (drawColumns M fnt width ch vft i ts d) = (if ts = [] then font_size d else 9)"
proof (induction ts arbitrary: i d)
  case Nil
  show ?case by simp
next
  case (Cons t ts)
  show ?case
    by (simp add: Let_def Cons.IH heightOfString_def)
qed

lemma drawSeparators_run:
  "canvas (drawSeparators width bp ep i ts d) =
     canvas d @ map (Pair (pages d))
       (map (\<lambda>k. Line (leftMargin + width * of_nat k) bp (leftMargin + width * of_nat k) ep)
          [max 1 i..<i + length ts])
   \<and> pages (drawSeparators width bp ep i ts d) = pages d
   \<and> page_width (drawSeparators width bp ep i ts d) = page_width d
   \<and> font_name (drawSeparators width bp ep i ts d) = font_name d
   \<and> font_size (drawSeparators width bp ep i ts d) = font_size d"
proof (induction ts arbitrary: i d)
  case Nil
  show ?case by simp
next
  case (Cons t ts)
  show ?case
  proof (cases "i = 0")
    case True
    then show ?thesis by (simp add: Cons.IH)
  next
    case False
    have m: "max 1 i = i" "max 1 (Suc i) = Suc i" "max (Suc 0) i = i"
      using False by simp_all
    have "[i..<i + Suc (length ts)] = i # [Suc i..<i + Suc (length ts)]"
      by (rule upt_conv_Cons) simp
    then have "[max 1 i..<i + length (t # ts)] = i # [max 1 (Suc i)..<Suc i + length ts]"
      by (simp add: m del: upt_Suc)
    with False show ?thesis
      by (simp add: Cons.IH drawVerticalLine_def del: upt_Suc)
  qed
qed

lemma length_columnOps [simp]: "length (columnOps M fnt width ch vft i ts st) = length ts"
  by (induction ts arbitrary: i st) simp_all

lemma columnOps_text: "x \<in> set (columnOps M fnt width ch vft i ts st) \<Longrightarrow> is_text x"
  by (induction ts arbitrary: i st) auto

lemma columnOps_nth:
  "k < length ts \<Longrightarrow>
   columnOps M fnt width ch vft i ts st ! k =
     Text (fnt, 9) (ts ! k)
       (if i + k = 0 then leftMargin else leftMargin + width * of_nat (i + k) + 5 / 2)
       (if M (if k = 0 then st else (fnt, 9)) (ts ! k) (width - 5) \<noteq> ch
        then vft + ((ch - M (if k = 0 then st else (fnt, 9)) (ts ! k) (width - 5)) / 2 - 1)
        else vft)
       (width - 5) AlignCenter"
proof (induction ts arbitrary: i k st)
  case Nil
  then show ?case by simp
next
  case (Cons t ts)
  show ?case
  proof (cases k)
    case 0
    then show ?thesis by simp
  next
    case (Suc j)
    then have "j < length ts" using Cons.prems by simp
    from Cons.IH[OF this, of "Suc i" "(fnt, 9)"] Suc show ?thesis by simp
  qed
qed

lemma fixedHeight_six:
  "generateInformationLineWithFixedHeight M d texts vft bp fnt fixedHeight =
   generateInformationLineWithFixedHeightCols M d texts vft bp fnt fixedHeight 6"
  by (simp add: generateInformationLineWithFixedHeight_def
        generateInformationLineWithFixedHeightCols_def)

lemma fixedHeightCols_run:
  "fst (generateInformationLineWithFixedHeightCols M d texts vft bp fnt fixedHeight columns) =
     (vft + fixedHeight + 5 + 5, vft + fixedHeight + 5)"
  "canvas (snd (generateInformationLineWithFixedHeightCols M d texts vft bp fnt fixedHeight columns)) =
     canvas d @ map (Pair (pages d))
       (columnOps M fnt (insideWidth d / of_nat columns) fixedHeight vft 0 texts
          (font_name d, font_size d) @
        separatorOps (insideWidth d / of_nat columns) bp (vft + fixedHeight + 5) (length texts) @
        [Line leftMargin (vft + fixedHeight + 5) (page_width d - rightMargin)
           (vft + fixedHeight + 5)])"
  "pages (snd (generateInformationLineWithFixedHeightCols M d texts vft bp fnt fixedHeight columns))
     = pages d"
  by (simp_all add: generateInformationLineWithFixedHeightCols_def Let_def drawColumns_run
        drawSeparators_run drawLine_def separatorOps_def)

lemma informationLine_result:
  "fst (generateInformationLine M d texts valueFromTop beginningPoint fnt) =
     (valueFromTop + rowMaxHeight M d texts (insideWidth d / 6 - 5) + 5 + 5,
      valueFromTop + rowMaxHeight M d texts (insideWidth d / 6 - 5) + 5)"
  by (simp add: generateInformationLine_def Let_def)


lemma foldl_max:
  fixes f :: "'a \<Rightarrow> 'b::linorder"
  shows "foldl (\<lambda>mx c. if f c > mx then f c else mx) a xs = Max (insert a (f ` set xs))"
proof (induction xs arbitrary: a)
  case Nil
  show ?case by simp
next
  case (Cons x xs)
  have "Max (insert (if a < f x then f x else a) (f ` set xs)) =
        Max (insert a (insert (f x) (f ` set xs)))"
  proof (cases "a < f x")
    case True
    have "Max (insert a (insert (f x) (f ` set xs))) = max a (Max (insert (f x) (f ` set xs)))"
      by (rule Max_insert) simp_all
    also have "\<dots> = Max (insert (f x) (f ` set xs))"
      using True by (simp add: max_def Max_ge_iff less_imp_le)
    finally show ?thesis using True by simp
  next
    case False
    then have "insert a (insert (f x) (f ` set xs)) = insert (f x) (insert a (f ` set xs))"
      by auto
    moreover have "Max (insert (f x) (insert a (f ` set xs))) = max (f x) (Max (insert a (f ` set xs)))"
      by (rule Max_insert) simp_all
    moreover have "\<dots> = Max (insert a (f ` set xs))"
      using False by (simp add: max_def Max_ge_iff not_less)
    ultimately show ?thesis using False by simp
  qed
  then show ?case by (simp add: Cons.IH)
qed

lemma rowMaxHeight_Max:
  "rowMaxHeight M d texts w =
     Max (insert minCellHeight ((\<lambda>s. heightOfString M d s w) ` set texts))"
proof -
  let ?S = "(\<lambda>s. heightOfString M d s w) ` set texts"
  have "rowMaxHeight M d texts w = max (Max (insert 0 ?S)) minCellHeight"
    by (simp add: rowMaxHeight_def Let_def foldl_max)
  also have "\<dots> = Max (insert minCellHeight (insert 0 ?S))"
    by (subst Max_insert) (simp_all add: max.commute)
  also have "\<dots> = Max (insert 0 (insert minCellHeight ?S))"
    by (simp add: insert_commute)
  also have "\<dots> = max 0 (Max (insert minCellHeight ?S))"
    by (rule Max_insert) simp_all
  also have "\<dots> = Max (insert minCellHeight ?S)"
    by (simp add: max_def Max_ge_iff minCellHeight_def)
  finally show ?thesis .
qed

lemma rowMaxHeight_ge: "minCellHeight \<le> rowMaxHeight M d texts w"
  by (simp add: rowMaxHeight_def)

lemma rowMaxHeight_eq_min:
  "rowMaxHeight M d texts w = minCellHeight \<longleftrightarrow>
     (\<forall>s \<in> set texts. heightOfString M d s w \<le> minCellHeight)"
proof -
  let ?S = "(\<lambda>s. heightOfString M d s w) ` set texts"
  have "Max (insert minCellHeight ?S) \<le> minCellHeight \<longleftrightarrow> (\<forall>x \<in> insert minCellHeight ?S. x \<le> minCellHeight)"
    by (rule Max_le_iff) simp_all
  then show ?thesis
    using rowMaxHeight_ge[of M d texts w] by (auto simp: rowMaxHeight_Max[symmetric])
qed

lemma length_informationLines [simp]:
  "length (informationLines M fnt rws valueFromTop beginningPoint d) = length rws"
  by (induction rws arbitrary: valueFromTop beginningPoint d) (simp_all add: Let_def)


lemma insideWidth_font [simp]:
  "insideWidth (fontSize n d) = insideWidth d" "insideWidth (font f d) = insideWidth d"
  by (simp_all add: insideWidth_def)

lemma centred_gap:
  fixes v F h y :: rat
  assumes "h < F" and "y = (if h \<noteq> F then v + ((F - h) / 2 - 1) else v)"
  shows "y - v = (F - h) / 2 - 1 \<and> (v + F - (y + h)) - (y - v) = 2 \<and>
         (F - h < 2 \<longrightarrow> y < v)"
  using assms by (simp add: field_simps)

lemma writeChunks_eq:
  "writeChunks None cs written = (written @ concat cs, True)"
  "writeChunks (Some n) cs written = (written @ take n (concat cs), length (concat cs) \<le> n)"
proof (induction cs arbitrary: n written)
  case Nil
  {
    case 1
    show ?case by simp
  next
    case 2
    show ?case by simp
  }
next
  case (Cons c cs)
  {
    case 1
    show ?case by (simp add: Cons.IH(1))
  next
    case 2
    show ?case by (auto simp: Cons.IH(2))
  }
qed

section \<open>The sample report document\<close>

lemma reportDoc_fields [simp]:
  "doc_y (reportDoc y0) = y0" "page_width (reportDoc y0) = 59528 / 100"
  "page_height (reportDoc y0) = 84189 / 100" "margin_left (reportDoc y0) = 20"
  "margin_right (reportDoc y0) = 20" "margin_top (reportDoc y0) = 20"
  "margin_bottom (reportDoc y0) = 40" "font_name (reportDoc y0) = ''Helvetica''"
  "font_size (reportDoc y0) = 12" "pages (reportDoc y0) = 0"
  "listeners (reportDoc y0) = [ReportPageAdded]" "canvas (reportDoc y0) = []"
  by (simp_all add: reportDoc_def leftMargin_def rightMargin_def)

lemma reportDoc_table [simp]:
  "tableWidth (reportDoc y0) = 55528 / 100" "col1Width (reportDoc y0) = 416"
  "col2Width (reportDoc y0) = 13928 / 100" "bottom_of (reportDoc y0) = 80189 / 100"
  "insideWidth (reportDoc y0) = 54528 / 100"
  by (simp_all add: tableWidth_def col1Width_def col2Width_def bottom_of_def insideWidth_def
        leftMargin_def rightMargin_def floor_eq_iff)

lemma reportDoc_listenerOps [simp]:
  "listenerOps (reportDoc y0) = [Rect 20 20 (55528 / 100) (78189 / 100)]"
  by (simp add: listenerOps_def borderOp_def)

lemma stripDoc_fields [simp]:
  "doc_y stripDoc = 20" "page_height stripDoc = 80" "margin_top stripDoc = 20"
  "margin_bottom stripDoc = 40" "pages stripDoc = 0" "bottom_of stripDoc = 40"
  by (simp_all add: stripDoc_def bottom_of_def)

lemma oneLine_9 [simp]: "oneLine (f, 9) s w = (if s = [] then 0 else 54 / 5)"
  by (simp add: oneLine_def)





section \<open>The claims\<close>













text \<open>
  C2, as amended. The room check: \<open>ensureSpace\<close> adds a page exactly when
  \<open>y + neededHeight > pageBottom\<close> and the cursor is more than one unit below the top margin;
  the new page puts the cursor on the top margin and runs the \<open>pageAdded\<close> listeners, which
  draw on it; in every other case the document is returned unchanged.
\<close>

theorem ensureSpace_contract:
  "ensureSpace d neededHeight =
     (if doc_y d + neededHeight > page_height d - margin_bottom d \<and> doc_y d > margin_top d + 1
      then addPage d else d) \<and>
   pages (addPage d) = Suc (pages d) \<and>
   doc_y (addPage d) = margin_top d \<and>
   canvas (addPage d) = canvas d @ map (Pair (Suc (pages d))) (listenerOps d) \<and>
   (pages (ensureSpace d neededHeight) = Suc (pages d) \<longleftrightarrow>
      doc_y d + neededHeight > page_height d - margin_bottom d \<and> doc_y d > margin_top d + 1) \<and>
   (pages (ensureSpace d neededHeight) \<noteq> Suc (pages d) \<longrightarrow> ensureSpace d neededHeight = d) \<and>
   ensureSpaceDefault d = ensureSpace d 80"
  by (simp add: ensureSpace_def ensureSpaceDefault_def Let_def)

theorem ensureSpace_contract_witness:
  "ensureSpace (reportDoc 790) 60 = addPage (reportDoc 790) \<and>
   pages (ensureSpace (reportDoc 790) 60) = 1 \<and>
   doc_y (ensureSpace (reportDoc 790) 60) = 20 \<and>
   canvas (ensureSpace (reportDoc 790) 60) = [(1, Rect 20 20 (55528 / 100) (78189 / 100))] \<and>
   ensureSpace (reportDoc 100) 60 = reportDoc 100"
  using ensureSpace_contract [of "reportDoc 790" 60] ensureSpace_contract [of "reportDoc 100" 60]
  by simp

text \<open>
  C2 as stated breaks the page whenever the block does not fit and the cursor is not at the
  top margin. One unit below the top margin the cursor is not at the top margin, and no
  page is added.
\<close>

theorem ensureSpace_contract_counterexample:
  "doc_y (reportDoc 21) + 1000 > page_height (reportDoc 21) - margin_bottom (reportDoc 21) \<and>
   doc_y (reportDoc 21) \<noteq> margin_top (reportDoc 21) \<and>
   ensureSpace (reportDoc 21) 1000 = reportDoc 21 \<and>
   pages (ensureSpace (reportDoc 21) 1000) = pages (reportDoc 21)"
  by (simp add: ensureSpace_def Let_def)

text \<open>
  C4, as amended. Row height without a fixed height: the height \<open>generateInformationLine\<close>
  computes is the largest of \<open>minCellHeight\<close> (14) and the measured heights of the row's texts,
  so it is at least 14; it equals 14 exactly when no text of the row measures more than 14,
  which covers the row whose texts are all empty when the empty text measures at most 14;
  the ending point the row returns is its top plus this height plus 5. The label and value
  heights of the tax information table are computed the same way, under their own fonts.
\<close>

theorem row_height:
  "rowMaxHeight M d texts w =
     Max (insert minCellHeight ((\<lambda>s. heightOfString M d s w) ` set texts)) \<and>
   minCellHeight = 14 \<and>
   minCellHeight \<le> rowMaxHeight M d texts w \<and>
   (rowMaxHeight M d texts w = minCellHeight \<longleftrightarrow>
      (\<forall>s \<in> set texts. heightOfString M d s w \<le> minCellHeight)) \<and>
   ((\<forall>s \<in> set texts. s = []) \<and> heightOfString M d [] w \<le> minCellHeight \<longrightarrow>
      rowMaxHeight M d texts w = minCellHeight) \<and>
   snd (fst (generateInformationLine M d texts valueFromTop beginningPoint fnt)) =
     valueFromTop + rowMaxHeight M d texts (insideWidth d / 6 - 5) + 5 \<and>
   labelHeight M d =
     Max (insert minCellHeight ((\<lambda>s. M (''Title'', 9) s (insideWidth d / 6 - 5)) ` set labelTexts)) \<and>
   valueHeight M d =
     Max (insert minCellHeight ((\<lambda>s. M (''Normal'', 9) s (insideWidth d / 6 - 5)) ` set valueTexts))"
proof -
  have "(\<forall>s \<in> set texts. s = []) \<and> heightOfString M d [] w \<le> minCellHeight \<longrightarrow>
      rowMaxHeight M d texts w = minCellHeight"
    unfolding rowMaxHeight_eq_min by auto
  moreover have "labelHeight M d =
     Max (insert minCellHeight ((\<lambda>s. M (''Title'', 9) s (insideWidth d / 6 - 5)) ` set labelTexts))"
    by (simp add: labelHeight_def rowMaxHeight_Max heightOfString_def)
  moreover have "valueHeight M d =
     Max (insert minCellHeight ((\<lambda>s. M (''Normal'', 9) s (insideWidth d / 6 - 5)) ` set valueTexts))"
    by (simp add: valueHeight_def rowMaxHeight_Max heightOfString_def)
  ultimately show ?thesis
    using rowMaxHeight_Max[of M d texts w] rowMaxHeight_ge[of M d texts w]
      rowMaxHeight_eq_min[of M d texts w]
    by (simp add: informationLine_result minCellHeight_def)
qed

theorem row_height_witness:
  "rowMaxHeight oneLine (fontSize 9 (reportDoc 0)) [[], []] (2147 / 25) = 14 \<and>
   rowMaxHeight oneLine (fontSize 9 (reportDoc 0)) [''TIN No'', ''VRN''] (2147 / 25) = 14 \<and>
   14 \<le> rowMaxHeight oneLine (fontSize 20 (reportDoc 0)) [''TIN No'', ''VRN''] (2147 / 25) \<and>
   rowMaxHeight oneLine (fontSize 20 (reportDoc 0)) [''TIN No'', ''VRN''] (2147 / 25) \<noteq> 14"
  using row_height [of oneLine "fontSize 9 (reportDoc 0)" "[[], []]" "2147 / 25",
      unfolded minCellHeight_def]
    row_height [of oneLine "fontSize 9 (reportDoc 0)" "[''TIN No'', ''VRN'']" "2147 / 25",
      unfolded minCellHeight_def]
    row_height [of oneLine "fontSize 20 (reportDoc 0)" "[''TIN No'', ''VRN'']" "2147 / 25",
      unfolded minCellHeight_def]
  by (simp add: heightOfString_def oneLine_def)

text \<open>
  C4 as stated has the height equal to \<open>minCellHeight\<close> exactly when every text is empty. A
  one-line label at size 9 measures less than 14, and its row has height 14.
\<close>

theorem row_height_counterexample:
  "rowMaxHeight oneLine (fontSize 9 (reportDoc 0)) [''TIN No''] (2147 / 25) = minCellHeight \<and>
   ''TIN No'' \<noteq> []"
  by (simp add: rowMaxHeight_def heightOfString_def minCellHeight_def)

text \<open>
  C5, as amended. Vertical placement in the fixed-height row: the text of a cell whose
  measured height differs from the row's fixed height, so in particular of every cell that
  measures less, is drawn at the row's \<open>valueFromTop\<close> plus \<open>(fixedHeight - ownHeight) / 2 - 1\<close>,
  one unit above the centred position and with no clamping: within the fixed height the gap
  below the text is two units larger than the gap above it, and when the cell is less than
  two units shorter than the row the text starts above \<open>valueFromTop\<close>. The height of the
  first cell is measured under the font in force on entry, that of every later cell under
  the row's font at size 9. The six-column row of the receipt generator is the row of the
  tax invoice generator with six columns.
\<close>

theorem vertical_offset:
  "k < length texts \<and> 0 < columns \<longrightarrow>
   (let r = generateInformationLineWithFixedHeightCols M d texts valueFromTop beginningPoint fnt
              fixedHeight columns;
        width = insideWidth d / of_nat columns;
        ownHeight = M (if k = 0 then (font_name d, font_size d) else (fnt, 9)) (texts ! k)
                      (width - 5);
        y = (if ownHeight \<noteq> fixedHeight
             then valueFromTop + ((fixedHeight - ownHeight) / 2 - 1) else valueFromTop)
    in canvas (snd r) ! (length (canvas d) + k) =
         (pages d,
          Text (fnt, 9) (texts ! k)
            (if k = 0 then leftMargin else leftMargin + width * of_nat k + 5 / 2)
            y (width - 5) AlignCenter) \<and>
       (ownHeight < fixedHeight \<longrightarrow>
          y - valueFromTop = (fixedHeight - ownHeight) / 2 - 1 \<and>
          (valueFromTop + fixedHeight - (y + ownHeight)) - (y - valueFromTop) = 2 \<and>
          (fixedHeight - ownHeight < 2 \<longrightarrow> y < valueFromTop))) \<and>
   generateInformationLineWithFixedHeight M d texts valueFromTop beginningPoint fnt fixedHeight =
     generateInformationLineWithFixedHeightCols M d texts valueFromTop beginningPoint fnt
       fixedHeight 6"
proof -
  let ?w = "insideWidth d / of_nat columns"
  let ?own = "M (if k = 0 then (font_name d, font_size d) else (fnt, 9)) (texts ! k) (?w - 5)"
  let ?y = "if ?own \<noteq> fixedHeight then valueFromTop + ((fixedHeight - ?own) / 2 - 1)
            else valueFromTop"
  have cell: "canvas (snd (generateInformationLineWithFixedHeightCols M d texts valueFromTop
            beginningPoint fnt fixedHeight columns)) ! (length (canvas d) + k) =
          (pages d, Text (fnt, 9) (texts ! k)
             (if k = 0 then leftMargin else leftMargin + ?w * of_nat k + 5 / 2)
             ?y (?w - 5) AlignCenter)"
    if "k < length texts"
    using that by (simp add: fixedHeightCols_run(2) nth_append columnOps_nth)
  have gap: "?own < fixedHeight \<longrightarrow>
          ?y - valueFromTop = (fixedHeight - ?own) / 2 - 1 \<and>
          (valueFromTop + fixedHeight - (?y + ?own)) - (?y - valueFromTop) = 2 \<and>
          (fixedHeight - ?own < 2 \<longrightarrow> ?y < valueFromTop)"
    using centred_gap[of ?own fixedHeight ?y valueFromTop] by blast
  show ?thesis
    unfolding Let_def using cell gap fixedHeight_six by blast
qed

theorem vertical_offset_witness:
  "canvas (snd (generateInformationLineWithFixedHeightCols oneLine (fontSize 9 (reportDoc 0))
      [''TIN No'', ''VRN''] 100 92 ''Title'' 14 6)) ! 1 =
     (0, Text (''Title'', 9) ''VRN'' (5669 / 50) (503 / 5) (2147 / 25) AlignCenter) \<and>
   canvas (snd (generateInformationLineWithFixedHeightCols oneLine (fontSize 11 (reportDoc 0))
      [''TIN No'', ''VRN''] 100 92 ''Title'' 14 6)) ! 0 =
     (0, Text (''Title'', 9) ''TIN No'' 20 (497 / 5) (2147 / 25) AlignCenter)"
  using vertical_offset [of 1 "[''TIN No'', ''VRN'']" 6 oneLine "fontSize 9 (reportDoc 0)" 100
      92 "''Title''" 14]
    vertical_offset [of 0 "[''TIN No'', ''VRN'']" 6 oneLine "fontSize 11 (reportDoc 0)" 100
      92 "''Title''" 14]
  by (simp add: Let_def leftMargin_def oneLine_def)

text \<open>
  C5 as stated puts the text at offset \<open>(fixedHeight - ownHeight) / 2\<close>, with equal gaps above
  and below to within one unit. A one-line cell of 10.8 units in a row of 14 starting at 100
  is drawn at 100.6, not at 101.6: the gap above is 0.6 and the gap below 2.6.
\<close>

theorem vertical_offset_counterexample:
  "canvas (snd (generateInformationLineWithFixedHeight oneLine (fontSize 9 (reportDoc 0))
      [''VRN''] 100 92 ''Title'' 14)) ! 0 =
     (0, Text (''Title'', 9) ''VRN'' 20 (503 / 5) (2147 / 25) AlignCenter) \<and>
   heightOfString oneLine (fontSize 9 (reportDoc 0)) ''VRN'' (2147 / 25) = 54 / 5 \<and>
   (503 / 5 :: rat) - 100 \<noteq> (14 - 54 / 5) / 2 \<and>
   \<not> \<bar>((100 + 14) - (503 / 5 + 54 / 5)) - (503 / 5 - 100 :: rat)\<bar> \<le> 1"
  by (simp add: fixedHeight_six fixedHeightCols_run(2) heightOfString_def leftMargin_def)

text \<open>
  C6. Column separators of the fixed-height row: after the texts of its N cells, and after
  nothing else, the row draws one vertical line for each column index from 1 to N - 1, so
  N - 1 lines, at \<open>leftMargin + width * i\<close>, each from the row's beginning point to its ending
  point \<open>valueFromTop + fixedHeight + 5\<close>, and then the horizontal rule at the ending point;
  it returns the ending point and the next top, five units below.
\<close>

theorem column_separators:
  "(0 < columns \<longrightarrow>
    (let r = generateInformationLineWithFixedHeightCols M d texts valueFromTop beginningPoint fnt
               fixedHeight columns;
         width = insideWidth d / of_nat columns;
         endingPoint = snd (fst r)
     in endingPoint = valueFromTop + fixedHeight + 5 \<and>
        fst (fst r) = endingPoint + 5 \<and>
        pages (snd r) = pages d \<and>
        (\<exists>cells. length cells = length texts \<and> (\<forall>c \<in> set cells. is_text c) \<and>
           canvas (snd r) =
             canvas d @ map (Pair (pages d))
               (cells @
                map (\<lambda>i. Line (leftMargin + width * of_nat i) beginningPoint
                            (leftMargin + width * of_nat i) endingPoint) [1..<length texts] @
                [Line leftMargin endingPoint (page_width d - rightMargin) endingPoint])) \<and>
        length [1..<length texts] = length texts - 1 \<and>
        (texts \<noteq> [] \<longrightarrow> Suc (length [1..<length texts]) = length texts))) \<and>
   generateInformationLineWithFixedHeight M d texts valueFromTop beginningPoint fnt fixedHeight =
     generateInformationLineWithFixedHeightCols M d texts valueFromTop beginningPoint fnt
       fixedHeight 6"
proof -
  let ?cells = "columnOps M fnt (insideWidth d / of_nat columns) fixedHeight valueFromTop 0 texts
                  (font_name d, font_size d)"
  have "length ?cells = length texts \<and> (\<forall>c \<in> set ?cells. is_text c)"
    using columnOps_text by auto
  then have "\<exists>cells. length cells = length texts \<and> (\<forall>c \<in> set cells. is_text c) \<and>
      canvas (snd (generateInformationLineWithFixedHeightCols M d texts valueFromTop
                     beginningPoint fnt fixedHeight columns)) =
        canvas d @ map (Pair (pages d))
          (cells @
           map (\<lambda>i. Line (leftMargin + insideWidth d / of_nat columns * of_nat i) beginningPoint
                       (leftMargin + insideWidth d / of_nat columns * of_nat i)
                       (valueFromTop + fixedHeight + 5)) [1..<length texts] @
           [Line leftMargin (valueFromTop + fixedHeight + 5) (page_width d - rightMargin)
              (valueFromTop + fixedHeight + 5)])"
    unfolding fixedHeightCols_run(2) separatorOps_def by blast
  moreover have "length [1..<length texts] = length texts - 1"
    by simp
  moreover have "texts \<noteq> [] \<longrightarrow> Suc (length [1..<length texts]) = length texts"
    by (cases texts) (simp_all del: upt_Suc)
  ultimately show ?thesis
    unfolding Let_def fixedHeightCols_run(1,3) fst_conv snd_conv
    using fixedHeight_six by blast
qed

theorem column_separators_witness:
  "snd (fst (generateInformationLineWithFixedHeightCols oneLine (fontSize 9 (reportDoc 0))
      labelTexts 108 100 ''Title'' 14 6)) = 127 \<and>
   drop 6 (canvas (snd (generateInformationLineWithFixedHeightCols oneLine
      (fontSize 9 (reportDoc 0)) labelTexts 108 100 ''Title'' 14 6))) =
     map (Pair 0)
       [Line (2772 / 25) 100 (2772 / 25) 127, Line (5044 / 25) 100 (5044 / 25) 127,
        Line (7316 / 25) 100 (7316 / 25) 127, Line (9588 / 25) 100 (9588 / 25) 127,
        Line (2372 / 5) 100 (2372 / 5) 127, Line 20 127 (57528 / 100) 127]"
proof -
  have u: "[1..<6] = [1, 2, 3, 4, 5]"
    by (simp add: upt_conv_Cons)
  show ?thesis
    using column_separators [of 6 oneLine "fontSize 9 (reportDoc 0)" labelTexts 108 100
        "''Title''" 14]
    by (auto simp: Let_def labelTexts_def u leftMargin_def rightMargin_def)
qed

text \<open>
  C9, as amended. Writing the document out: the receipt generator settles its promise as
  resolved exactly when the document ended and the sink took every byte, and then the file
  holds the whole document; when the write fails part-way the promise is rejected and the
  bytes written so far stay in the file; when the file cannot be opened or the document
  reports an error the promise is rejected and the file system is untouched. The report
  exporter returns no result whatever the sink does, and leaves in the file what the sink
  took.
\<close>

theorem sink_failure:
  "(snd (generateNewReceipt_write snk ev fs localPath chunks) = Resolved \<longleftrightarrow>
      ev = DocEnd \<and>
      (snk = Unlimited \<or> (\<exists>n. snk = FailsAfter n \<and> length (concat chunks) \<le> n))) \<and>
   (snd (generateNewReceipt_write snk ev fs localPath chunks) = Resolved \<longrightarrow>
      fst (generateNewReceipt_write snk ev fs localPath chunks) =
        fs(localPath \<mapsto> concat chunks)) \<and>
   (ev = DocEnd \<and> snk = FailsAfter n \<and> n < length (concat chunks) \<longrightarrow>
      generateNewReceipt_write snk ev fs localPath chunks =
        (fs(localPath \<mapsto> take n (concat chunks)), Rejected)) \<and>
   (snk = OpenFails \<or> ev = DocError \<longrightarrow>
      generateNewReceipt_write snk ev fs localPath chunks = (fs, Rejected)) \<and>
   snd (exportReportToPDF_write snk fs filePath chunks) = None \<and>
   (snk = Unlimited \<longrightarrow>
      fst (exportReportToPDF_write snk fs filePath chunks) = fs(filePath \<mapsto> concat chunks)) \<and>
   (snk = FailsAfter n \<longrightarrow>
      fst (exportReportToPDF_write snk fs filePath chunks) =
        fs(filePath \<mapsto> take n (concat chunks))) \<and>
   (snk = OpenFails \<longrightarrow> fst (exportReportToPDF_write snk fs filePath chunks) = fs)"
  by (cases snk; cases ev)
     (auto simp: generateNewReceipt_write_def exportReportToPDF_write_def writeFileSync_def
        writeTo_def writeChunks_eq Let_def)

theorem sink_failure_witness:
  "generateNewReceipt_write (FailsAfter 4) DocEnd Map.empty ''receipt.pdf''
     [''%PDF-1.3'', ''%%EOF''] = (Map.empty(''receipt.pdf'' \<mapsto> ''%PDF''), Rejected) \<and>
   generateNewReceipt_write OpenFails DocEnd Map.empty ''receipt.pdf''
     [''%PDF-1.3'', ''%%EOF''] = (Map.empty, Rejected) \<and>
   generateNewReceipt_write Unlimited DocEnd Map.empty ''receipt.pdf''
     [''%PDF-1.3'', ''%%EOF''] = (Map.empty(''receipt.pdf'' \<mapsto> ''%PDF-1.3%%EOF''), Resolved) \<and>
   fst (exportReportToPDF_write (FailsAfter 4) Map.empty ''report.pdf''
     [''%PDF-1.3'', ''%%EOF'']) = Map.empty(''report.pdf'' \<mapsto> ''%PDF'')"
  using sink_failure [of "FailsAfter 4" DocEnd Map.empty "''receipt.pdf''"
      "[''%PDF-1.3'', ''%%EOF'']" 4 "''report.pdf''"]
    sink_failure [of OpenFails DocEnd Map.empty "''receipt.pdf''"
      "[''%PDF-1.3'', ''%%EOF'']" 4 "''report.pdf''"]
    sink_failure [of Unlimited DocEnd Map.empty "''receipt.pdf''"
      "[''%PDF-1.3'', ''%%EOF'']" 4 "''report.pdf''"]
  by (auto simp: prod_eq_iff)

text \<open>
  C9 as stated has every failure of the sink surfaced to the caller and no half-written file
  left. A sink that fails after four bytes leaves the first four bytes of the receipt in its
  file, and of the report as well, whose exporter moreover reports nothing.
\<close>

theorem sink_failure_counterexample:
  "snd (generateNewReceipt_write (FailsAfter 4) DocEnd Map.empty ''receipt.pdf''
          [''%PDF-1.3'', ''%%EOF'']) = Rejected \<and>
   fst (generateNewReceipt_write (FailsAfter 4) DocEnd Map.empty ''receipt.pdf''
          [''%PDF-1.3'', ''%%EOF'']) ''receipt.pdf'' = Some ''%PDF'' \<and>
   snd (exportReportToPDF_write (FailsAfter 4) Map.empty ''report.pdf''
          [''%PDF-1.3'', ''%%EOF'']) = None \<and>
   fst (exportReportToPDF_write (FailsAfter 4) Map.empty ''report.pdf''
          [''%PDF-1.3'', ''%%EOF'']) ''report.pdf'' = Some ''%PDF''"
  by (simp add: generateNewReceipt_write_def exportReportToPDF_write_def writeFileSync_def
        writeTo_def Let_def)

end
